theory Spec2Isabelle
  imports Main "HOL-Library.Word"
begin

section \<open>Text\<close>

text \<open>
  The three programs of the repository (\<^verbatim>\<open>src/main.go\<close>, the first version;
  \<^verbatim>\<open>src/unnamed/part_000\<close>, the version that posts every extracted URL to an HTTP
  backend; the Go program in \<^verbatim>\<open>src/Dockerfile\<close>, the version that runs
  \<^verbatim>\<open>gallery-dl\<close> with retries) read message texts with Go's \<^verbatim>\<open>regexp\<close> and
  \<^verbatim>\<open>fmt\<close> packages, which both work on runes (Unicode code points). A Go string is
  therefore modelled as the list of its runes; \<open>str\<close> writes an ASCII literal.
\<close>

type_synonym rune = nat
type_synonym runes = "rune list"
type_synonym int64 = "64 word"

definition str :: "string \<Rightarrow> runes" where
  "str s = map of_char s"

subsection \<open>The URL pattern\<close>

text \<open>
  \<^verbatim>\<open>regexp.MustCompile(`https?://[^\s,]+`)\<close>, where the second character of the
  class is the full-width comma U+FF0C (65292), not the ASCII comma (44). In Go's
  syntax \<^verbatim>\<open>\s\<close> is the class of tab, line feed, form feed, carriage return and space.
\<close>

definition perlSpace :: "rune \<Rightarrow> bool" where
  "perlSpace r = (r = 9 \<or> r = 10 \<or> r = 12 \<or> r = 13 \<or> r = 32)"

definition fullWidthComma :: rune where
  "fullWidthComma = 65292"

definition urlChar :: "rune \<Rightarrow> bool" where
  "urlChar r = (\<not> perlSpace r \<and> r \<noteq> fullWidthComma)"

fun stripPrefix :: "runes \<Rightarrow> runes \<Rightarrow> runes option" where
  "stripPrefix [] s = Some s"
| "stripPrefix (p # ps) [] = None"
| "stripPrefix (p # ps) (c # cs) = (if p = c then stripPrefix ps cs else None)"

text \<open>
  \<open>scheme s\<close> matches \<^verbatim>\<open>https?://\<close> at the head of \<open>s\<close>: the optional
  \<^verbatim>\<open>s\<close> is greedy, so the longer prefix is tried first. The result is the matched
  prefix and the input after it.
\<close>

definition scheme :: "runes \<Rightarrow> (runes \<times> runes) option" where
  "scheme s =
     (case stripPrefix (str ''https://'') s of
        Some r \<Rightarrow> Some (str ''https://'', r)
      | None \<Rightarrow>
          (case stripPrefix (str ''http://'') s of
             Some r \<Rightarrow> Some (str ''http://'', r)
           | None \<Rightarrow> None))"

text \<open>
  \<open>urlRegex s\<close> is the match of the whole pattern anchored at the head of \<open>s\<close>,
  with the input left after it: the scheme, then the longest non-empty run of class
  characters.
\<close>

definition urlRegex :: "runes \<Rightarrow> (runes \<times> runes) option" where
  "urlRegex s =
     (case scheme s of
        None \<Rightarrow> None
      | Some (p, r) \<Rightarrow>
          (if takeWhile urlChar r = [] then None
           else Some (p @ takeWhile urlChar r, dropWhile urlChar r)))"

text \<open>
  \<^verbatim>\<open>urlRegex.FindAllString(message, -1)\<close>: the leftmost match, then the leftmost
  match of what follows it, and so on; matches do not overlap. The pattern matches no
  empty string, so the search always resumes at the end of the last match.
\<close>

function FindAllString :: "runes \<Rightarrow> runes list" where
  "FindAllString [] = []"
| "FindAllString (c # cs) =
     (case urlRegex (c # cs) of
        None \<Rightarrow> FindAllString cs
      | Some (m, rest) \<Rightarrow> m # FindAllString rest)"
  by pat_completeness auto
termination
proof (relation "measure length")
  show "wf (measure length)" by simp
next
  fix c :: rune and cs :: runes
  show "(cs, c # cs) \<in> measure length" by simp
next
  fix c :: rune and cs x2 m rest
  assume a: "urlRegex (c # cs) = Some x2" "(m, rest) = x2"
  have sp: "\<And>p s r. stripPrefix p s = Some r \<Longrightarrow> length r + length p = length s"
  proof -
    fix p s r show "stripPrefix p s = Some r \<Longrightarrow> length r + length p = length s"
      by (induction p s rule: stripPrefix.induct) (auto split: if_splits)
  qed
  from a obtain p r where s: "scheme (c # cs) = Some (p, r)" and rest: "rest = dropWhile urlChar r"
    by (auto simp: urlRegex_def split: option.splits if_splits)
  have ne: "str ''https://'' \<noteq> []" "str ''http://'' \<noteq> []"
    by (simp_all add: str_def)
  from s obtain q where "q \<noteq> []" and "stripPrefix q (c # cs) = Some r"
    using ne by (auto simp: scheme_def split: option.splits)
  then have "length r < length (c # cs)"
    using sp [of q "c # cs" r] by (cases q) auto
  moreover have "length rest \<le> length r"
    unfolding rest by (rule length_dropWhile_le)
  ultimately show "(rest, c # cs) \<in> measure length" by simp
qed

text \<open>\<^verbatim>\<open>extractUrls\<close> of \<^verbatim>\<open>part_000\<close> and of the retrying program.\<close>

definition extractUrls :: "runes \<Rightarrow> runes list" where
  "extractUrls message = FindAllString message"

text \<open>
  \<^verbatim>\<open>getUrl\<close> of \<^verbatim>\<open>src/main.go\<close>: the first match, or the message itself
  when the pattern matches nowhere.
\<close>

definition getUrl :: "runes \<Rightarrow> runes" where
  "getUrl message =
     (case FindAllString message of
        [] \<Rightarrow> message
      | u # urls \<Rightarrow> u)"

subsection \<open>Decimal integers: \<^verbatim>\<open>fmt.Sprintf("%d")\<close> and \<^verbatim>\<open>fmt.Sscanf("%d")\<close>\<close>

text \<open>
  An \<^verbatim>\<open>int64\<close> is a 64-bit word read in two's complement (\<open>sint\<close>): \<open>+\<close> wraps
  around as Go's does, and Go's \<^verbatim>\<open>a > b\<close> is \<open>sint b < sint a\<close>.
  \<open>fmt_d\<close> is the verb \<^verbatim>\<open>%d\<close> of \<^verbatim>\<open>Sprintf\<close> at an \<^verbatim>\<open>int64\<close>: a minus sign
  for a negative value, then the decimal digits of its magnitude.
\<close>

fun showNat :: "nat \<Rightarrow> runes" where
  "showNat n = (if n < 10 then [48 + n] else showNat (n div 10) @ [48 + n mod 10])"

declare showNat.simps [simp del]

definition fmt_d :: "int64 \<Rightarrow> runes" where
  "fmt_d v = (if sint v < 0 then 45 # showNat (nat (- sint v)) else showNat (nat (sint v)))"

text \<open>
  \<^verbatim>\<open>fmt.Sscanf(s, "%d", &v)\<close> with \<^verbatim>\<open>v\<close> an \<^verbatim>\<open>int64\<close>, as package
  \<^verbatim>\<open>fmt\<close> scans it: leading space is skipped, where a line feed is an error (a
  carriage return right before a line feed is passed over first); then an optional sign,
  then at least one decimal digit, and all the digits that follow; the number must fit
  64 bits. Input after the number is not read. \<open>isSpace\<close> is the package's table of
  Unicode white space.
\<close>

datatype scan_error = UnexpectedNewline | EOF | ExpectedInteger | ValueOutOfRange

definition isSpace :: "rune \<Rightarrow> bool" where
  "isSpace r =
     ((9 \<le> r \<and> r \<le> 13) \<or> r = 32 \<or> r = 133 \<or> r = 160 \<or> r = 5760 \<or>
      (8192 \<le> r \<and> r \<le> 8202) \<or> r = 8232 \<or> r = 8233 \<or> r = 8239 \<or> r = 8287 \<or>
      r = 12288)"

fun SkipSpace :: "runes \<Rightarrow> scan_error + runes" where
  "SkipSpace [] = Inr []"
| "SkipSpace (r # rs) =
     (if r = 13 \<and> (case rs of [] \<Rightarrow> False | n # _ \<Rightarrow> n = 10) then SkipSpace rs
      else if r = 10 then Inl UnexpectedNewline
      else if \<not> isSpace r then Inr (r # rs)
      else SkipSpace rs)"

definition isDigit :: "rune \<Rightarrow> bool" where
  "isDigit r = (48 \<le> r \<and> r \<le> 57)"

definition digitsValue :: "runes \<Rightarrow> nat" where
  "digitsValue ds = foldl (\<lambda>a d. 10 * a + (d - 48)) 0 ds"

text \<open>\<^verbatim>\<open>strconv.ParseInt(tok, 10, 64)\<close> at a token of an optional sign and digits.\<close>

definition ParseInt :: "bool \<Rightarrow> runes \<Rightarrow> scan_error + int64" where
  "ParseInt neg ds =
     (if neg then
        (if digitsValue ds \<le> 2 ^ 63 then Inr (word_of_int (- int (digitsValue ds)))
         else Inl ValueOutOfRange)
      else
        (if digitsValue ds < 2 ^ 63 then Inr (word_of_int (int (digitsValue ds)))
         else Inl ValueOutOfRange))"

definition scanNumber :: "bool \<Rightarrow> runes \<Rightarrow> scan_error + int64" where
  "scanNumber neg s =
     (case s of
        [] \<Rightarrow> Inl EOF
      | d # ds \<Rightarrow>
          (if \<not> isDigit d then Inl ExpectedInteger
           else ParseInt neg (takeWhile isDigit (d # ds))))"

definition Sscanf_d :: "runes \<Rightarrow> scan_error + int64" where
  "Sscanf_d s =
     (case SkipSpace s of
        Inl e \<Rightarrow> Inl e
      | Inr [] \<Rightarrow> Inl EOF
      | Inr (c # cs) \<Rightarrow>
          (if c = 43 then scanNumber False cs
           else if c = 45 then scanNumber True cs
           else scanNumber False (c # cs)))"

section \<open>The world outside the program\<close>

text \<open>
  Go's \<^verbatim>\<open>error\<close> is an \<open>err option\<close>, \<open>None\<close> for \<^verbatim>\<open>nil\<close>. An error the program
  makes itself is a constructor named after its format string; \<open>External\<close> is an error
  that a library call returned (network, file system, child process), with its text.
\<close>

datatype err =
    External runes
  | ScanError scan_error
  | GetUpdatesFailed \<comment> \<open>\<^verbatim>\<open>"failed to get updates: %s"\<close>\<close>
  | BackendStatus nat runes \<comment> \<open>\<^verbatim>\<open>"backend returned status code %d, body: %s"\<close>\<close>
  | ProxyNotSet \<comment> \<open>\<^verbatim>\<open>"HTTP_PROXY environment variable is not set"\<close>\<close>
  | GalleryDl err \<comment> \<open>\<^verbatim>\<open>"failed to run gallery-dl: %v"\<close>\<close>
  | FinalFailure nat "err option"
      \<comment> \<open>the final error of the retry loop: the number of attempts, then \<^verbatim>\<open>%w\<close> of the last error\<close>

text \<open>
  The texts sent to a chat, one constructor for each format string with its arguments
  in the order of the source.
\<close>

datatype notice =
    NoUrlFound \<comment> \<open>no URL in the message (both later programs)\<close>
  | UrlsFound nat \<comment> \<open>\<^verbatim>\<open>%d\<close> URLs found, download starts (both later programs)\<close>
  | DownloadSucceeded nat runes \<comment> \<open>retrying program: success at attempt \<^verbatim>\<open>%d\<close>, URL\<close>
  | DownloadRetrying nat runes err \<comment> \<open>retrying program: attempt \<^verbatim>\<open>%d\<close> failed, retrying; URL, error\<close>
  | TaskTerminated runes err \<comment> \<open>retrying program: task given up; URL, error\<close>
  | DownloadOk runes \<comment> \<open>\<^verbatim>\<open>part_000\<close>: success; URL\<close>
  | DownloadFailed runes err \<comment> \<open>\<^verbatim>\<open>part_000\<close>: failure; URL, error\<close>
  | OkV1 runes \<comment> \<open>\<^verbatim>\<open>main.go\<close>: success, \<^verbatim>\<open>url: %s\<close>\<close>
  | FailedV1 runes err \<comment> \<open>\<^verbatim>\<open>main.go\<close>: failure, \<^verbatim>\<open>url: %s,err: %v\<close>\<close>

record Message =
  ChatID :: int64
  Text :: runes

record Update =
  UpdateID :: int64
  Message :: "Message option"

text \<open>
  The decoded reply of the messaging API (the struct \<^verbatim>\<open>Result\<close>; its field
  \<^verbatim>\<open>Result\<close>, the updates, is \<open>Updates\<close> here).
\<close>

record Result =
  Ok :: bool
  ErrorCode :: int
  Description :: runes
  Updates :: "Update list"

datatype file_state = NotExist | Unreadable | Content runes

datatype post_result =
    PostError err \<comment> \<open>\<^verbatim>\<open>http.NewRequest\<close>, \<^verbatim>\<open>client.Do\<close> or \<^verbatim>\<open>io.ReadAll\<close> failed\<close>
  | Response nat runes \<comment> \<open>status code and body\<close>

datatype event =
    HttpGet runes \<comment> \<open>\<^verbatim>\<open>http.Get(url)\<close> of \<^verbatim>\<open>getUpdates\<close>\<close>
  | SendMessage int64 notice \<comment> \<open>a call of \<^verbatim>\<open>sendMessage(chatID, text)\<close>\<close>
  | Download runes \<comment> \<open>a call of \<^verbatim>\<open>download\<close> with this argument\<close>
  | WriteFile runes \<comment> \<open>\<^verbatim>\<open>os.WriteFile(lastUpdateIDFile, data, 0644)\<close>\<close>
  | Sleep nat \<comment> \<open>\<^verbatim>\<open>time.Sleep\<close>, in seconds\<close>

text \<open>
  The state of the world: the environment variables, the checkpoint file, what the
  outside answers (the \<open>n\<close>-th request for updates, the \<open>n\<close>-th POST to the backend,
  the \<open>n\<close>-th run of \<^verbatim>\<open>gallery-dl\<close>, the \<open>n\<close>-th write of the file: any answers at
  all, the program has no hold on them), how many of each were made, and the effects so
  far in their order. A failed write also says what it left in the file.
\<close>

record world =
  telegramBotToken :: runes
  backendURL :: runes
  HTTP_PROXY :: runes
  lastUpdateIDFile :: file_state
  telegram :: "nat \<Rightarrow> runes \<Rightarrow> err + Result"
  polls :: nat
  backend :: "nat \<Rightarrow> runes \<Rightarrow> runes \<Rightarrow> post_result"
  posts :: nat
  galleryDl :: "nat \<Rightarrow> runes \<Rightarrow> runes \<Rightarrow> err option"
  runs :: nat
  disk :: "nat \<Rightarrow> (err \<times> file_state) option"
  writes :: nat
  events :: "event list"

definition emit :: "event \<Rightarrow> world \<Rightarrow> world" where
  "emit e w = w\<lparr>events := events w @ [e]\<rparr>"

section \<open>What the three programs share\<close>

text \<open>
  \<^verbatim>\<open>getUpdates\<close>: the request carries \<^verbatim>\<open>offset=lastUpdateID+1\<close> and
  \<^verbatim>\<open>timeout=30\<close>. A transport error, an unreadable body and a reply that is not JSON are
  the \<open>Inl\<close> answers of \<open>telegram\<close>; a reply with \<^verbatim>\<open>ok\<close> false is an error too.
\<close>

definition getUpdatesURL :: "runes \<Rightarrow> int64 \<Rightarrow> runes" where
  "getUpdatesURL token lastUpdateID =
     str ''https://api.telegram.org/bot'' @ token @ str ''/getUpdates?offset='' @
     fmt_d (lastUpdateID + 1) @ str ''&timeout=30''"

definition getUpdates :: "int64 \<Rightarrow> world \<Rightarrow> (err + Update list) \<times> world" where
  "getUpdates lastUpdateID w =
     (let url = getUpdatesURL (telegramBotToken w) lastUpdateID;
          w1 = emit (HttpGet url) (w\<lparr>polls := polls w + 1\<rparr>)
      in case telegram w (polls w) url of
           Inl e \<Rightarrow> (Inl e, w1)
         | Inr result \<Rightarrow>
             (if \<not> Ok result then (Inl GetUpdatesFailed, w1)
              else (Inr (Updates result), w1)))"

text \<open>
  \<^verbatim>\<open>getLastUpdateID\<close>: a file that does not exist and a file that cannot be read
  give \<^verbatim>\<open>0, nil\<close>; a file whose text does not scan gives \<^verbatim>\<open>0, err\<close>.
\<close>

definition getLastUpdateID :: "world \<Rightarrow> int64 \<times> err option" where
  "getLastUpdateID w =
     (case lastUpdateIDFile w of
        NotExist \<Rightarrow> (0, None)
      | Unreadable \<Rightarrow> (0, None)
      | Content data \<Rightarrow>
          (case Sscanf_d data of
             Inl e \<Rightarrow> (0, Some (ScanError e))
           | Inr lastUpdateID \<Rightarrow> (lastUpdateID, None)))"

definition saveLastUpdateID :: "int64 \<Rightarrow> world \<Rightarrow> err option \<times> world" where
  "saveLastUpdateID lastUpdateID w =
     (let data = fmt_d lastUpdateID;
          w1 = emit (WriteFile data) (w\<lparr>writes := writes w + 1\<rparr>)
      in case disk w (writes w) of
           None \<Rightarrow> (None, w1\<lparr>lastUpdateIDFile := Content data\<rparr>)
         | Some (e, left) \<Rightarrow> (Some e, w1\<lparr>lastUpdateIDFile := left\<rparr>))"

text \<open>
  \<^verbatim>\<open>sendMessage\<close> returns an error that no caller reads, so the model keeps the
  call only.
\<close>

definition sendMessage :: "int64 \<Rightarrow> notice \<Rightarrow> world \<Rightarrow> world" where
  "sendMessage chatID n w = emit (SendMessage chatID n) w"

definition sleep :: "nat \<Rightarrow> world \<Rightarrow> world" where
  "sleep seconds w = emit (Sleep seconds) w"

text \<open>The step \<^verbatim>\<open>if update.UpdateID > lastUpdateID { lastUpdateID = update.UpdateID }\<close>.\<close>

definition advance :: "Update \<Rightarrow> int64 \<Rightarrow> int64" where
  "advance update lastUpdateID =
     (if sint lastUpdateID < sint (UpdateID update) then UpdateID update else lastUpdateID)"

datatype fatal =
    ConfigNotSet \<comment> \<open>\<^verbatim>\<open>log.Fatal("TELEGRAM_BOT_TOKEN or BACKEND_URL environment variable is not set.")\<close>\<close>
  | ReadLastUpdateID err \<comment> \<open>\<^verbatim>\<open>log.Fatalf("Failed to read last update ID: %v", err)\<close>\<close>

section \<open>The retrying program (\<^verbatim>\<open>src/Dockerfile\<close>)\<close>

text \<open>
  \<^verbatim>\<open>download\<close> reads \<^verbatim>\<open>HTTP_PROXY\<close> at every call and fails without running
  anything when it is empty; otherwise it runs \<^verbatim>\<open>gallery-dl --proxy <proxy> <url>\<close>
  and wraps the error of the run.
\<close>

definition download :: "runes \<Rightarrow> world \<Rightarrow> err option \<times> world" where
  "download downloadURL w =
     (let w1 = emit (Download downloadURL) w
      in if HTTP_PROXY w = [] then (Some ProxyNotSet, w1)
         else
           (case galleryDl w (runs w) (HTTP_PROXY w) downloadURL of
              Some e \<Rightarrow> (Some (GalleryDl e), w1\<lparr>runs := runs w + 1\<rparr>)
            | None \<Rightarrow> (None, w1\<lparr>runs := runs w + 1\<rparr>)))"

definition maxRetries :: nat where
  "maxRetries = 3"

definition delay :: nat where
  "delay = 5"

text \<open>
  The loop \<^verbatim>\<open>for i := 0; i < maxRetries; i++\<close> of \<^verbatim>\<open>runDownloadWithRetry\<close>, from
  the value \<open>i\<close> of the counter, with \<^verbatim>\<open>lastErr\<close> as it stands; after the loop comes
  the final error.
\<close>

function retryFrom :: "nat \<Rightarrow> err option \<Rightarrow> runes \<Rightarrow> int64 \<Rightarrow> world \<Rightarrow> err option \<times> world" where
  "retryFrom i lastErr url chatID w =
     (if i < maxRetries then
        (case download url w of
           (None, w1) \<Rightarrow> (None, sendMessage chatID (DownloadSucceeded (i + 1) url) w1)
         | (Some e, w1) \<Rightarrow>
             retryFrom (i + 1) (Some e) url chatID
               (if i < maxRetries - 1
                then sleep delay (sendMessage chatID (DownloadRetrying (i + 1) url e) w1)
                else w1))
      else (Some (FinalFailure maxRetries lastErr), w))"
  by pat_completeness auto
termination
  by (relation "measure (\<lambda>(i, lastErr, url, chatID, w). maxRetries - i)") auto

declare retryFrom.simps [simp del]

definition runDownloadWithRetry :: "runes \<Rightarrow> int64 \<Rightarrow> world \<Rightarrow> err option \<times> world" where
  "runDownloadWithRetry url chatID w = retryFrom 0 None url chatID w"

text \<open>The loop \<^verbatim>\<open>for _, url := range urlsToDownload\<close> of \<^verbatim>\<open>main\<close>.\<close>

fun downloadUrls :: "runes list \<Rightarrow> int64 \<Rightarrow> world \<Rightarrow> world" where
  "downloadUrls [] chatID w = w"
| "downloadUrls (url # urls) chatID w =
     (case runDownloadWithRetry url chatID w of
        (Some e, w1) \<Rightarrow> downloadUrls urls chatID (sendMessage chatID (TaskTerminated url e) w1)
      | (None, w1) \<Rightarrow> downloadUrls urls chatID w1)"

text \<open>The body of \<^verbatim>\<open>if update.Message != nil\<close>.\<close>

definition handleMessage :: "Message \<Rightarrow> world \<Rightarrow> world" where
  "handleMessage m w =
     (let urlsToDownload = extractUrls (Text m);
          w1 = (if length urlsToDownload = 0 then sendMessage (ChatID m) NoUrlFound w
                else sendMessage (ChatID m) (UrlsFound (length urlsToDownload)) w)
      in downloadUrls urlsToDownload (ChatID m) w1)"

text \<open>The loop \<^verbatim>\<open>for _, update := range updates\<close>.\<close>

fun handleUpdates :: "Update list \<Rightarrow> int64 \<Rightarrow> world \<Rightarrow> int64 \<times> world" where
  "handleUpdates [] lastUpdateID w = (lastUpdateID, w)"
| "handleUpdates (update # updates) lastUpdateID w =
     handleUpdates updates (advance update lastUpdateID)
       (case Message update of
          Some m \<Rightarrow> handleMessage m w
        | None \<Rightarrow> w)"

text \<open>
  One pass of the endless loop of \<^verbatim>\<open>main\<close>: when the request for updates fails,
  five seconds of sleep and nothing else; otherwise the updates, the write of the
  checkpoint (its error is logged and dropped) and two seconds of sleep.
\<close>

definition mainPass :: "int64 \<Rightarrow> world \<Rightarrow> int64 \<times> world" where
  "mainPass lastUpdateID w =
     (case getUpdates lastUpdateID w of
        (Inl e, w1) \<Rightarrow> (lastUpdateID, sleep 5 w1)
      | (Inr updates, w1) \<Rightarrow>
          (case handleUpdates updates lastUpdateID w1 of
             (lastUpdateID', w2) \<Rightarrow>
               (lastUpdateID', sleep 2 (snd (saveLastUpdateID lastUpdateID' w2)))))"

text \<open>
  \<^verbatim>\<open>main\<close> up to its loop: the two variables read at start, then the checkpoint.
  \<open>Inl\<close> is \<^verbatim>\<open>log.Fatal\<close>, which ends the process.
\<close>

definition mainInit :: "world \<Rightarrow> fatal + int64" where
  "mainInit w =
     (if telegramBotToken w = [] \<or> backendURL w = [] then Inl ConfigNotSet
      else
        (case getLastUpdateID w of
           (lastUpdateID, Some e) \<Rightarrow> Inl (ReadLastUpdateID e)
         | (lastUpdateID, None) \<Rightarrow> Inr lastUpdateID))"

text \<open>The first \<open>n\<close> passes of the loop, and \<^verbatim>\<open>main\<close> watched for \<open>n\<close> passes.\<close>

fun mainLoop :: "nat \<Rightarrow> int64 \<Rightarrow> world \<Rightarrow> int64 \<times> world" where
  "mainLoop 0 lastUpdateID w = (lastUpdateID, w)"
| "mainLoop (Suc n) lastUpdateID w =
     (case mainPass lastUpdateID w of
        (lastUpdateID', w1) \<Rightarrow> mainLoop n lastUpdateID' w1)"

definition main :: "nat \<Rightarrow> world \<Rightarrow> fatal + int64 \<times> world" where
  "main n w =
     (case mainInit w of
        Inl f \<Rightarrow> Inl f
      | Inr lastUpdateID \<Rightarrow> Inr (mainLoop n lastUpdateID w))"

section \<open>The program with an HTTP backend (\<^verbatim>\<open>src/unnamed/part_000\<close>)\<close>

text \<open>
  \<^verbatim>\<open>download\<close> posts the URL to the backend; a status other than 200 is an error.
\<close>

definition download_http :: "runes \<Rightarrow> world \<Rightarrow> err option \<times> world" where
  "download_http downloadURL w =
     (let w1 = emit (Download downloadURL) (w\<lparr>posts := posts w + 1\<rparr>)
      in case backend w (posts w) (backendURL w) downloadURL of
           PostError e \<Rightarrow> (Some e, w1)
         | Response code body \<Rightarrow>
             (if code \<noteq> 200 then (Some (BackendStatus code body), w1) else (None, w1)))"

fun downloadUrls_http :: "runes list \<Rightarrow> int64 \<Rightarrow> world \<Rightarrow> world" where
  "downloadUrls_http [] chatID w = w"
| "downloadUrls_http (url # urls) chatID w =
     (case download_http url w of
        (Some e, w1) \<Rightarrow> downloadUrls_http urls chatID (sendMessage chatID (DownloadFailed url e) w1)
      | (None, w1) \<Rightarrow> downloadUrls_http urls chatID (sendMessage chatID (DownloadOk url) w1))"

definition handleMessage_http :: "Message \<Rightarrow> world \<Rightarrow> world" where
  "handleMessage_http m w =
     (let urlsToDownload = extractUrls (Text m);
          w1 = (if length urlsToDownload = 0 then sendMessage (ChatID m) NoUrlFound w
                else sendMessage (ChatID m) (UrlsFound (length urlsToDownload)) w)
      in downloadUrls_http urlsToDownload (ChatID m) w1)"

fun handleUpdates_http :: "Update list \<Rightarrow> int64 \<Rightarrow> world \<Rightarrow> int64 \<times> world" where
  "handleUpdates_http [] lastUpdateID w = (lastUpdateID, w)"
| "handleUpdates_http (update # updates) lastUpdateID w =
     handleUpdates_http updates (advance update lastUpdateID)
       (case Message update of
          Some m \<Rightarrow> handleMessage_http m w
        | None \<Rightarrow> w)"

definition mainPass_http :: "int64 \<Rightarrow> world \<Rightarrow> int64 \<times> world" where
  "mainPass_http lastUpdateID w =
     (case getUpdates lastUpdateID w of
        (Inl e, w1) \<Rightarrow> (lastUpdateID, sleep 5 w1)
      | (Inr updates, w1) \<Rightarrow>
          (case handleUpdates_http updates lastUpdateID w1 of
             (lastUpdateID', w2) \<Rightarrow>
               (lastUpdateID', sleep 2 (snd (saveLastUpdateID lastUpdateID' w2)))))"

text \<open>\<^verbatim>\<open>main\<close> up to its loop is the same text as in the retrying program.\<close>

definition mainInit_http :: "world \<Rightarrow> fatal + int64" where
  "mainInit_http w =
     (if telegramBotToken w = [] \<or> backendURL w = [] then Inl ConfigNotSet
      else
        (case getLastUpdateID w of
           (lastUpdateID, Some e) \<Rightarrow> Inl (ReadLastUpdateID e)
         | (lastUpdateID, None) \<Rightarrow> Inr lastUpdateID))"

fun mainLoop_http :: "nat \<Rightarrow> int64 \<Rightarrow> world \<Rightarrow> int64 \<times> world" where
  "mainLoop_http 0 lastUpdateID w = (lastUpdateID, w)"
| "mainLoop_http (Suc n) lastUpdateID w =
     (case mainPass_http lastUpdateID w of
        (lastUpdateID', w1) \<Rightarrow> mainLoop_http n lastUpdateID' w1)"

definition main_http :: "nat \<Rightarrow> world \<Rightarrow> fatal + int64 \<times> world" where
  "main_http n w =
     (case mainInit_http w of
        Inl f \<Rightarrow> Inl f
      | Inr lastUpdateID \<Rightarrow> Inr (mainLoop_http n lastUpdateID w))"

section \<open>The first program (\<^verbatim>\<open>src/main.go\<close>)\<close>

text \<open>
  \<^verbatim>\<open>download\<close> posts the whole message text; the status of the reply is not read.
\<close>

definition download_v1 :: "runes \<Rightarrow> world \<Rightarrow> err option \<times> world" where
  "download_v1 message w =
     (let w1 = emit (Download message) (w\<lparr>posts := posts w + 1\<rparr>)
      in case backend w (posts w) (backendURL w) message of
           PostError e \<Rightarrow> (Some e, w1)
         | Response code body \<Rightarrow> (None, w1))"

datatype panic = NilPointerDereference

text \<open>
  The body of the loop over the updates. The test \<^verbatim>\<open>update.Message != nil\<close> guards
  a log line only; \<^verbatim>\<open>update.Message.Text\<close>, the argument of \<^verbatim>\<open>download\<close>, is
  read after it for every update, and reading a field through a nil pointer panics.
\<close>

definition handleUpdate_v1 :: "Update \<Rightarrow> int64 \<Rightarrow> world \<Rightarrow> panic + int64 \<times> world" where
  "handleUpdate_v1 update lastUpdateID w =
     (case Message update of
        None \<Rightarrow> Inl NilPointerDereference
      | Some m \<Rightarrow>
          (case download_v1 (Text m) w of
             (Some e, w1) \<Rightarrow>
               Inr (advance update lastUpdateID,
                    sendMessage (ChatID m) (FailedV1 (getUrl (Text m)) e) w1)
           | (None, w1) \<Rightarrow>
               Inr (advance update lastUpdateID,
                    sendMessage (ChatID m) (OkV1 (getUrl (Text m))) w1)))"

fun handleUpdates_v1 :: "Update list \<Rightarrow> int64 \<Rightarrow> world \<Rightarrow> panic + int64 \<times> world" where
  "handleUpdates_v1 [] lastUpdateID w = Inr (lastUpdateID, w)"
| "handleUpdates_v1 (update # updates) lastUpdateID w =
     (case handleUpdate_v1 update lastUpdateID w of
        Inl p \<Rightarrow> Inl p
      | Inr (lastUpdateID', w1) \<Rightarrow> handleUpdates_v1 updates lastUpdateID' w1)"

section \<open>A world to run the programs in\<close>

text \<open>
  A world where everything is set but the proxy, no checkpoint file exists, no update
  arrives and every call to the outside succeeds. The examples below change it where
  they need another one.
\<close>

definition quiet :: world where
  "quiet =
     \<lparr>telegramBotToken = str ''123:abc'', backendURL = str ''http://backend/download'',
      HTTP_PROXY = [], lastUpdateIDFile = NotExist,
      telegram = (\<lambda>n url. Inr \<lparr>Ok = True, ErrorCode = 0, Description = [], Updates = []\<rparr>),
      polls = 0,
      backend = (\<lambda>n b u. Response 200 []), posts = 0,
      galleryDl = (\<lambda>n p u. None), runs = 0,
      disk = (\<lambda>n. None), writes = 0,
      events = []\<rparr>"

text \<open>
  The same world, where the first request for updates returns one update, number 5,
  with a message from chat 7 that holds one URL.
\<close>

definition oneMessage :: world where
  "oneMessage =
     quiet\<lparr>telegram :=
       (\<lambda>n url.
          if n = 0
          then Inr \<lparr>Ok = True, ErrorCode = 0, Description = [],
                    Updates = [\<lparr>UpdateID = 5,
                                Message = Some \<lparr>ChatID = 7,
                                                Text = str ''get https://example.com/a''\<rparr>\<rparr>]\<rparr>
          else Inr \<lparr>Ok = True, ErrorCode = 0, Description = [], Updates = []\<rparr>)\<rparr>"

text \<open>
  The quiet world again, where the first request for updates returns one update, number
  5, that has no message.
\<close>

definition lowId :: world where
  "lowId =
     quiet\<lparr>telegram :=
       (\<lambda>n url.
          if n = 0
          then Inr \<lparr>Ok = True, ErrorCode = 0, Description = [],
                    Updates = [\<lparr>UpdateID = 5, Message = None\<rparr>]\<rparr>
          else Inr \<lparr>Ok = True, ErrorCode = 0, Description = [], Updates = []\<rparr>)\<rparr>"

section \<open>The retry loop\<close>

lemma retryFrom_failed:
  assumes "Suc i < maxRetries" and "download url w = (Some e, w1)"
  shows "retryFrom i lastErr url chatID w =
           retryFrom (Suc i) (Some e) url chatID
             (sleep delay (sendMessage chatID (DownloadRetrying (Suc i) url e) w1))"
proof -
  from assms(1) have "i < maxRetries" and "i < maxRetries - 1" by simp_all
  with assms(2) show ?thesis by (subst retryFrom.simps) simp
qed

lemma retryFrom_failed_last:
  assumes "Suc i = maxRetries" and "download url w = (Some e, w1)"
  shows "retryFrom i lastErr url chatID w = (Some (FinalFailure maxRetries (Some e)), w1)"
proof -
  have "retryFrom (Suc i) (Some e) url chatID w1 = (Some (FinalFailure maxRetries (Some e)), w1)"
    using assms(1) by (subst retryFrom.simps) simp
  with assms show ?thesis by (subst retryFrom.simps) auto
qed

lemma retryFrom_succeeded:
  assumes "i < maxRetries" and "download url w = (None, w1)"
  shows "retryFrom i lastErr url chatID w =
           (None, sendMessage chatID (DownloadSucceeded (Suc i) url) w1)"
  using assms by (subst retryFrom.simps) simp

lemma download_no_proxy:
  "HTTP_PROXY w = [] \<Longrightarrow> download url w = (Some ProxyNotSet, emit (Download url) w)"
  by (simp add: download_def Let_def)

lemma download_run:
  "HTTP_PROXY w \<noteq> [] \<Longrightarrow>
   download url w =
     (map_option GalleryDl (galleryDl w (runs w) (HTTP_PROXY w) url),
      emit (Download url) w\<lparr>runs := runs w + 1\<rparr>)"
  by (simp add: download_def emit_def Let_def split: option.splits)

text \<open>
  C1. Whatever the URL and the chat: when every attempt fails (no proxy is set, or the
  next three runs of \<^verbatim>\<open>gallery-dl\<close> all fail), \<^verbatim>\<open>runDownloadWithRetry\<close> calls
  \<^verbatim>\<open>download\<close> exactly three times, notifies and sleeps five seconds after the first
  and after the second failure, does neither after the third, and returns the final
  error, which names 3 attempts and wraps the error of the third call.
\<close>

theorem retry_all_attempts_fail:
  assumes "HTTP_PROXY w = [] \<or> (\<forall>k<3. galleryDl w (runs w + k) (HTTP_PROXY w) url \<noteq> None)"
  shows "\<exists>e1 e2 e3.
           fst (download url w) = Some e1 \<and>
           fst (download url (w\<lparr>runs := runs w + 1\<rparr>)) = Some e2 \<and>
           fst (download url (w\<lparr>runs := runs w + 2\<rparr>)) = Some e3 \<and>
           fst (runDownloadWithRetry url chatID w) = Some (FinalFailure 3 (Some e3)) \<and>
           events (snd (runDownloadWithRetry url chatID w)) =
             events w @
             [Download url, SendMessage chatID (DownloadRetrying 1 url e1), Sleep 5,
              Download url, SendMessage chatID (DownloadRetrying 2 url e2), Sleep 5,
              Download url]"
proof (cases "HTTP_PROXY w = []")
  case True
  then show ?thesis
    by (simp add: runDownloadWithRetry_def retryFrom_failed retryFrom_failed_last
        download_no_proxy sendMessage_def sleep_def emit_def maxRetries_def delay_def
        numeral_2_eq_2)
next
  case False
  with assms have f: "\<forall>k<3. galleryDl w (runs w + k) (HTTP_PROXY w) url \<noteq> None" by simp
  from f [rule_format, of 0] obtain x1
    where x1: "galleryDl w (runs w) (HTTP_PROXY w) url = Some x1" by auto
  from f [rule_format, of 1] obtain x2
    where x2: "galleryDl w (Suc (runs w)) (HTTP_PROXY w) url = Some x2" by auto
  from f [rule_format, of 2] obtain x3
    where x3: "galleryDl w (Suc (Suc (runs w))) (HTTP_PROXY w) url = Some x3" by auto
  show ?thesis using False x1 x2 x3
    by (simp add: runDownloadWithRetry_def retryFrom_failed retryFrom_failed_last
        download_run sendMessage_def sleep_def emit_def maxRetries_def delay_def
        numeral_2_eq_2)
qed

theorem retry_all_attempts_fail_witness:
  "fst (runDownloadWithRetry (str ''https://example.com/a'') 7
          (quiet\<lparr>HTTP_PROXY := str ''http://proxy:8080'',
                 galleryDl := (\<lambda>n p u. Some (External (str ''exit status 1'')))\<rparr>)) =
     Some (FinalFailure 3 (Some (GalleryDl (External (str ''exit status 1''))))) \<and>
   events (snd (runDownloadWithRetry (str ''https://example.com/a'') 7
          (quiet\<lparr>HTTP_PROXY := str ''http://proxy:8080'',
                 galleryDl := (\<lambda>n p u. Some (External (str ''exit status 1'')))\<rparr>))) =
     [Download (str ''https://example.com/a''),
      SendMessage 7 (DownloadRetrying 1 (str ''https://example.com/a'')
        (GalleryDl (External (str ''exit status 1'')))),
      Sleep 5,
      Download (str ''https://example.com/a''),
      SendMessage 7 (DownloadRetrying 2 (str ''https://example.com/a'')
        (GalleryDl (External (str ''exit status 1'')))),
      Sleep 5,
      Download (str ''https://example.com/a'')]"
  using retry_all_attempts_fail
    [of "quiet\<lparr>HTTP_PROXY := str ''http://proxy:8080'',
                 galleryDl := (\<lambda>n p u. Some (External (str ''exit status 1'')))\<rparr>"
        "str ''https://example.com/a''" 7]
  by (auto simp: quiet_def download_def str_def)

text \<open>
  C5. Whatever the URL and the chat: when the first run fails and the second succeeds,
  \<^verbatim>\<open>runDownloadWithRetry\<close> returns \<^verbatim>\<open>nil\<close> after exactly two calls of
  \<^verbatim>\<open>download\<close>, having sent one retry notification, for attempt 1, and one success
  notification, for attempt 2; nothing follows the success.
\<close>

theorem retry_fail_then_succeed:
  assumes "HTTP_PROXY w \<noteq> []"
    and "galleryDl w (runs w) (HTTP_PROXY w) url = Some e"
    and "galleryDl w (runs w + 1) (HTTP_PROXY w) url = None"
  shows "runDownloadWithRetry url chatID w =
           (None,
            w\<lparr>runs := runs w + 2,
              events := events w @
                [Download url, SendMessage chatID (DownloadRetrying 1 url (GalleryDl e)), Sleep 5,
                 Download url, SendMessage chatID (DownloadSucceeded 2 url)]\<rparr>)"
  using assms
  by (simp add: runDownloadWithRetry_def retryFrom_failed retryFrom_succeeded
        download_run sendMessage_def sleep_def emit_def maxRetries_def delay_def
        numeral_2_eq_2)


theorem retry_fail_then_succeed_witness:
  "runDownloadWithRetry (str ''https://example.com/a'') 7
     (quiet\<lparr>HTTP_PROXY := str ''http://proxy:8080'',
            galleryDl := (\<lambda>n p u. if n = 0 then Some (External (str ''exit status 1'')) else None)\<rparr>) =
     (None,
      quiet\<lparr>HTTP_PROXY := str ''http://proxy:8080'',
            galleryDl := (\<lambda>n p u. if n = 0 then Some (External (str ''exit status 1'')) else None),
            runs := 2,
            events :=
              [Download (str ''https://example.com/a''),
               SendMessage 7 (DownloadRetrying 1 (str ''https://example.com/a'')
                 (GalleryDl (External (str ''exit status 1'')))),
               Sleep 5,
               Download (str ''https://example.com/a''),
               SendMessage 7 (DownloadSucceeded 2 (str ''https://example.com/a''))]\<rparr>)"
  using retry_fail_then_succeed
    [of "quiet\<lparr>HTTP_PROXY := str ''http://proxy:8080'',
            galleryDl := (\<lambda>n p u. if n = 0 then Some (External (str ''exit status 1'')) else None)\<rparr>"
        "str ''https://example.com/a''" "External (str ''exit status 1'')" 7]
  by (simp add: quiet_def str_def)

section \<open>The URL extractor\<close>

lemmas regex_eval = extractUrls_def urlRegex_def scheme_def str_def urlChar_def perlSpace_def
  fullWidthComma_def

text \<open>
  C3, as the specification states it: for the text
  \<^verbatim>\<open>check this out https://example.com/a,https://example.com/b thanks\<close> the extractor
  would return the two URLs \<^verbatim>\<open>https://example.com/a\<close> and
  \<^verbatim>\<open>https://example.com/b\<close>. It does not.
\<close>

theorem extractUrls_ascii_comma_counterexample:
  "extractUrls (str ''check this out https://example.com/a,https://example.com/b thanks'') \<noteq>
     [str ''https://example.com/a'', str ''https://example.com/b'']"
  by (simp add: regex_eval)

text \<open>
  C3, amended. For that text \<^verbatim>\<open>extractUrls\<close> returns one match,
  \<^verbatim>\<open>https://example.com/a,https://example.com/b\<close>: the ASCII comma is not in the
  class the pattern excludes, so it is a character of the match like any other. The same
  text with the full-width comma, or with a space, in place of the ASCII comma gives the
  two URLs.
\<close>

theorem extractUrls_ascii_comma:
  "extractUrls (str ''check this out https://example.com/a,https://example.com/b thanks'') =
     [str ''https://example.com/a,https://example.com/b''] \<and>
   extractUrls (str ''check this out https://example.com/a'' @ [fullWidthComma] @
                str ''https://example.com/b thanks'') =
     [str ''https://example.com/a'', str ''https://example.com/b''] \<and>
   extractUrls (str ''check this out https://example.com/a https://example.com/b thanks'') =
     [str ''https://example.com/a'', str ''https://example.com/b'']"
  by (simp add: regex_eval)

section \<open>An update without a message, in the first program\<close>

text \<open>
  C9. In \<^verbatim>\<open>src/main.go\<close> the step for an update whose \<^verbatim>\<open>Message\<close> is nil ends in
  a nil-pointer dereference, whatever the update's id and the state of the world, and so
  does the loop over a batch that starts with such an update; nothing skips the update.
  The later program \<^verbatim>\<open>part_000\<close>, with the whole step under the guard, passes over
  it and only moves the checkpoint.
\<close>

theorem nil_message_panics_v1:
  "handleUpdate_v1 (update\<lparr>Message := None\<rparr>) lastUpdateID w = Inl NilPointerDereference \<and>
   handleUpdates_v1 (update\<lparr>Message := None\<rparr> # updates) lastUpdateID w =
     Inl NilPointerDereference \<and>
   handleUpdates_http (update\<lparr>Message := None\<rparr> # updates) lastUpdateID w =
     handleUpdates_http updates (advance update lastUpdateID) w"
  by (simp add: handleUpdate_v1_def advance_def)

section \<open>\<^verbatim>\<open>getUrl\<close> of the first program\<close>

lemma urlRegex_Nil: "urlRegex [] = None"
  by (simp add: urlRegex_def scheme_def str_def)

lemma FindAllString_no_match:
  "(FindAllString m = []) = (\<forall>j. urlRegex (drop j m) = None)"
proof (induction m)
  case Nil
  then show ?case by (simp add: urlRegex_Nil)
next
  case (Cons c cs)
  show ?case
  proof (cases "urlRegex (c # cs)")
    case None
    have "(\<forall>j. urlRegex (drop j (c # cs)) = None) = (\<forall>j. urlRegex (drop j cs) = None)"
    proof
      assume a: "\<forall>j. urlRegex (drop j (c # cs)) = None"
      show "\<forall>j. urlRegex (drop j cs) = None"
      proof
        fix j from a have "urlRegex (drop (Suc j) (c # cs)) = None" by blast
        then show "urlRegex (drop j cs) = None" by simp
      qed
    next
      assume a: "\<forall>j. urlRegex (drop j cs) = None"
      show "\<forall>j. urlRegex (drop j (c # cs)) = None"
      proof
        fix j show "urlRegex (drop j (c # cs)) = None"
          using a None by (cases j) auto
      qed
    qed
    with None Cons show ?thesis by simp
  next
    case (Some a)
    then have "\<exists>j. urlRegex (drop j (c # cs)) \<noteq> None"
      by (intro exI [of _ 0]) simp
    then have "\<not> (\<forall>j. urlRegex (drop j (c # cs)) = None)" by simp
    with Some show ?thesis by (auto split: prod.splits)
  qed
qed

lemma FindAllString_first_match:
  "urlRegex (drop k m) = Some (u, rest) \<Longrightarrow> \<forall>j<k. urlRegex (drop j m) = None \<Longrightarrow>
   \<exists>us. FindAllString m = u # us"
proof (induction k arbitrary: m)
  case 0
  then show ?case by (cases m) (auto simp: urlRegex_Nil)
next
  case (Suc k)
  show ?case
  proof (cases m)
    case Nil
    with Suc.prems show ?thesis by (simp add: urlRegex_Nil)
  next
    case (Cons c cs)
    from Suc.prems(2) have "urlRegex (drop 0 m) = None" by blast
    with Cons have n: "urlRegex (c # cs) = None" by simp
    from Suc.prems(1) Cons have a: "urlRegex (drop k cs) = Some (u, rest)" by simp
    have b: "\<forall>j<k. urlRegex (drop j cs) = None"
    proof (intro allI impI)
      fix j assume "j < k"
      then have "Suc j < Suc k" by simp
      with Suc.prems(2) have "urlRegex (drop (Suc j) m) = None" by blast
      with Cons show "urlRegex (drop j cs) = None" by simp
    qed
    from Suc.IH [OF a b] n Cons show ?thesis by simp
  qed
qed

lemma stripPrefix_Some: "stripPrefix p s = Some r \<Longrightarrow> s = p @ r"
  by (induction p s rule: stripPrefix.induct) (auto split: if_splits)

lemma urlRegex_shape:
  assumes "urlRegex s = Some (u, rest)"
  shows "\<exists>p body. (p = str ''https://'' \<or> p = str ''http://'') \<and> body \<noteq> [] \<and>
     (\<forall>r\<in>set body. urlChar r) \<and> u = p @ body \<and> s = u @ rest \<and>
     (case rest of [] \<Rightarrow> True | r # _ \<Rightarrow> \<not> urlChar r)"
proof -
  from assms obtain p t where sc: "scheme s = Some (p, t)"
    and ne: "takeWhile urlChar t \<noteq> []"
    and u: "u = p @ takeWhile urlChar t" and rest: "rest = dropWhile urlChar t"
    by (auto simp: urlRegex_def split: option.splits if_splits)
  from sc have p: "p = str ''https://'' \<or> p = str ''http://''" and s: "s = p @ t"
    by (auto simp: scheme_def split: option.splits dest: stripPrefix_Some)
  have "case dropWhile urlChar t of [] \<Rightarrow> True | r # _ \<Rightarrow> \<not> urlChar r"
  proof (cases "dropWhile urlChar t")
    case Nil
    show ?thesis unfolding Nil by simp
  next
    case (Cons a list)
    then have "dropWhile urlChar t \<noteq> []" by simp
    then have "\<not> urlChar (hd (dropWhile urlChar t))" by (rule hd_dropWhile)
    then show ?thesis unfolding Cons by simp
  qed
  with p s ne u rest show ?thesis
    by (intro exI [of _ p] exI [of _ "takeWhile urlChar t"])
       (auto dest: set_takeWhileD)
qed

text \<open>
  C10. \<^verbatim>\<open>getUrl\<close> returns the leftmost match of the pattern when there is one: the
  match at position \<open>k\<close> when the pattern matches at no earlier position, a text that
  starts with \<^verbatim>\<open>http://\<close> or \<^verbatim>\<open>https://\<close> and goes on for at least one more
  character. When the pattern matches at no position, \<^verbatim>\<open>getUrl\<close> returns the message
  unchanged, and the notification that the step of \<^verbatim>\<open>src/main.go\<close> sends, for success
  and for failure alike, carries the whole message text where the URL would stand.
\<close>

theorem getUrl_first_match_or_message:
  "(\<forall>k u rest. urlRegex (drop k m) = Some (u, rest) \<and> (\<forall>j<k. urlRegex (drop j m) = None)
      \<longrightarrow> getUrl m = u \<and>
          (\<exists>body. body \<noteq> [] \<and> (u = str ''https://'' @ body \<or> u = str ''http://'' @ body))) \<and>
   ((\<forall>j. urlRegex (drop j m) = None) \<longrightarrow>
      getUrl m = m \<and>
      (\<forall>w chatID update lastUpdateID.
         handleUpdate_v1 (update\<lparr>Message := Some \<lparr>ChatID = chatID, Text = m\<rparr>\<rparr>) lastUpdateID w =
           (case download_v1 m w of
              (Some e, w1) \<Rightarrow>
                Inr (advance update lastUpdateID, sendMessage chatID (FailedV1 m e) w1)
            | (None, w1) \<Rightarrow>
                Inr (advance update lastUpdateID, sendMessage chatID (OkV1 m) w1))))"
proof (intro conjI allI impI)
  fix k u rest
  assume a: "urlRegex (drop k m) = Some (u, rest) \<and> (\<forall>j<k. urlRegex (drop j m) = None)"
  then obtain us where "FindAllString m = u # us"
    using FindAllString_first_match by blast
  then show "getUrl m = u" by (simp add: getUrl_def)
  from a urlRegex_shape [of "drop k m" u rest]
  show "\<exists>body. body \<noteq> [] \<and> (u = str ''https://'' @ body \<or> u = str ''http://'' @ body)"
    by blast
next
  assume "\<forall>j. urlRegex (drop j m) = None"
  then have "FindAllString m = []" by (simp add: FindAllString_no_match)
  then show "getUrl m = m" by (simp add: getUrl_def)
next
  fix w chatID update lastUpdateID
  assume "\<forall>j. urlRegex (drop j m) = None"
  then have "FindAllString m = []" by (simp add: FindAllString_no_match)
  then have "getUrl m = m" by (simp add: getUrl_def)
  then show "handleUpdate_v1 (update\<lparr>Message := Some \<lparr>ChatID = chatID, Text = m\<rparr>\<rparr>) lastUpdateID w =
           (case download_v1 m w of
              (Some e, w1) \<Rightarrow>
                Inr (advance update lastUpdateID, sendMessage chatID (FailedV1 m e) w1)
            | (None, w1) \<Rightarrow>
                Inr (advance update lastUpdateID, sendMessage chatID (OkV1 m) w1))"
    by (simp add: handleUpdate_v1_def advance_def split: prod.splits option.splits)
qed

theorem getUrl_first_match_or_message_witness:
  "getUrl (str ''see https://a.b/c now'') = str ''https://a.b/c'' \<and>
   getUrl (str ''no links here'') = str ''no links here'' \<and>
   handleUpdate_v1 \<lparr>UpdateID = 9, Message = Some \<lparr>ChatID = 7, Text = str ''no links here''\<rparr>\<rparr>
       0 quiet =
     Inr (9, quiet\<lparr>posts := 1,
                 events := [Download (str ''no links here''),
                            SendMessage 7 (OkV1 (str ''no links here''))]\<rparr>)"
proof -
  let ?m = "str ''see https://a.b/c now''"
  let ?n = "str ''no links here''"
  have h1: "urlRegex (drop 4 ?m) = Some (str ''https://a.b/c'', str '' now'')"
    by (simp add: regex_eval)
  have h2: "\<forall>j<4. urlRegex (drop j ?m) = None"
    by (simp add: regex_eval numeral_eq_Suc less_Suc_eq)
  have "FindAllString ?n = []"
    by (simp add: regex_eval)
  then have h3: "\<forall>j. urlRegex (drop j ?n) = None"
    by (rule iffD1 [OF FindAllString_no_match])
  from getUrl_first_match_or_message [of ?m] h1 h2
  have g1: "getUrl ?m = str ''https://a.b/c''" by blast
  from getUrl_first_match_or_message [of ?n] h3
  have g2: "getUrl ?n = ?n"
    and g3: "handleUpdate_v1 (\<lparr>UpdateID = 9, Message = None\<rparr>
               \<lparr>Message := Some \<lparr>ChatID = 7, Text = ?n\<rparr>\<rparr>) 0 quiet =
           (case download_v1 ?n quiet of
              (Some e, w1) \<Rightarrow>
                Inr (advance \<lparr>UpdateID = 9, Message = None\<rparr> 0, sendMessage 7 (FailedV1 ?n e) w1)
            | (None, w1) \<Rightarrow>
                Inr (advance \<lparr>UpdateID = 9, Message = None\<rparr> 0, sendMessage 7 (OkV1 ?n) w1))"
    by blast+
  from g3 have "handleUpdate_v1 \<lparr>UpdateID = 9, Message = Some \<lparr>ChatID = 7, Text = ?n\<rparr>\<rparr> 0 quiet =
     Inr (9, quiet\<lparr>posts := 1, events := [Download ?n, SendMessage 7 (OkV1 ?n)]\<rparr>)"
    by (simp add: download_v1_def quiet_def advance_def sendMessage_def emit_def)
  with g1 g2 show ?thesis by simp
qed

section \<open>The checkpoint file\<close>

lemma showNat_digits: "\<forall>r\<in>set (showNat n). isDigit r"
proof (induction n rule: showNat.induct)
  case (1 n)
  show ?case
  proof (cases "n < 10")
    case True
    then show ?thesis by (subst showNat.simps) (simp add: isDigit_def)
  next
    case False
    have "n mod 10 < 10" by simp
    then have "isDigit (48 + n mod 10)" unfolding isDigit_def by linarith
    with False "1.IH" show ?thesis by (subst showNat.simps) simp
  qed
qed

lemma showNat_Cons: "\<exists>d ds. showNat n = d # ds \<and> isDigit d"
proof -
  have "showNat n \<noteq> []"
    by (subst showNat.simps) simp
  then obtain d ds where "showNat n = d # ds" by (cases "showNat n") auto
  with showNat_digits [of n] show ?thesis by auto
qed

lemma digitsValue_snoc: "digitsValue (ds @ [d]) = 10 * digitsValue ds + (d - 48)"
  by (simp add: digitsValue_def)

lemma digitsValue_showNat: "digitsValue (showNat n) = n"
proof (induction n rule: showNat.induct)
  case (1 n)
  show ?case
  proof (cases "n < 10")
    case True
    then show ?thesis by (subst showNat.simps) (simp add: digitsValue_def)
  next
    case False
    with "1.IH" show ?thesis
      by (subst showNat.simps) (simp add: digitsValue_snoc)
  qed
qed

lemma isDigit_not_space: "isDigit d \<Longrightarrow> \<not> isSpace d \<and> d \<noteq> 10 \<and> d \<noteq> 13 \<and> d \<noteq> 43 \<and> d \<noteq> 45"
  by (auto simp: isDigit_def isSpace_def)

lemma scanNumber_showNat: "scanNumber neg (showNat n) = ParseInt neg (showNat n)"
proof -
  obtain d ds where c: "showNat n = d # ds" and d: "isDigit d"
    using showNat_Cons by blast
  from showNat_digits [of n] c have "\<forall>r\<in>set ds. isDigit r" by simp
  then have tw: "takeWhile isDigit ds = ds" by (rule iffD2 [OF takeWhile_eq_all_conv])
  show ?thesis unfolding c by (simp add: scanNumber_def d tw)
qed

lemma Sscanf_d_showNat: "Sscanf_d (showNat n) = ParseInt False (showNat n)"
proof -
  obtain d ds where c: "showNat n = d # ds" and d: "isDigit d"
    using showNat_Cons by blast
  from d have "SkipSpace (d # ds) = Inr (d # ds)"
    using isDigit_not_space [of d] by simp
  with c d isDigit_not_space [of d] scanNumber_showNat [of False n]
  show ?thesis by (simp add: Sscanf_d_def)
qed

lemma Sscanf_d_minus_showNat: "Sscanf_d (45 # showNat n) = ParseInt True (showNat n)"
proof -
  have "SkipSpace (45 # showNat n) = Inr (45 # showNat n)"
    by (simp add: isSpace_def)
  then show ?thesis by (simp add: Sscanf_d_def scanNumber_showNat)
qed

lemma Sscanf_d_fmt_d: "Sscanf_d (fmt_d v) = Inr v"
proof (cases "sint v < 0")
  case True
  have "- 9223372036854775808 \<le> sint v" using sint_ge [of v] by simp
  with True have "nat (- sint v) \<le> 9223372036854775808" by linarith
  then have "nat (- sint v) \<le> 2 ^ 63" by simp
  moreover from True have "- int (nat (- sint v)) = sint v" by simp
  ultimately show ?thesis using True
    by (simp add: fmt_d_def Sscanf_d_minus_showNat ParseInt_def digitsValue_showNat)
next
  case False
  have "sint v < 9223372036854775808" using sint_lt [of v] by simp
  with False have "nat (sint v) < 9223372036854775808" by linarith
  then have "nat (sint v) < 2 ^ 63" by simp
  moreover from False have "int (nat (sint v)) = sint v" by simp
  ultimately show ?thesis using False
    by (simp add: fmt_d_def Sscanf_d_showNat ParseInt_def digitsValue_showNat)
qed

text \<open>
  C6. After a write of the checkpoint that succeeded, reading it gives the value written
  and no error: \<^verbatim>\<open>Sscanf\<close> reads back what \<^verbatim>\<open>Sprintf("%d")\<close> wrote. This holds for
  every \<^verbatim>\<open>int64\<close>, so for every value \<open>v \<ge> 0\<close>.
\<close>

theorem save_then_load:
  assumes "saveLastUpdateID v w = (None, w')"
  shows "getLastUpdateID w' = (v, None)"
  using assms
  by (auto simp: saveLastUpdateID_def getLastUpdateID_def emit_def Let_def Sscanf_d_fmt_d
      split: option.splits)

theorem save_then_load_witness:
  "saveLastUpdateID 42 quiet =
     (None, quiet\<lparr>lastUpdateIDFile := Content (str ''42''), writes := 1,
                  events := [WriteFile (str ''42'')]\<rparr>) \<and>
   getLastUpdateID (quiet\<lparr>lastUpdateIDFile := Content (str ''42''), writes := 1,
                  events := [WriteFile (str ''42'')]\<rparr>) = (42, None)"
proof -
  have s: "saveLastUpdateID 42 quiet =
     (None, quiet\<lparr>lastUpdateIDFile := Content (str ''42''), writes := 1,
                  events := [WriteFile (str ''42'')]\<rparr>)"
    by (simp add: saveLastUpdateID_def quiet_def emit_def fmt_d_def showNat.simps str_def
        Let_def)
  from save_then_load [OF s] s show ?thesis by simp
qed

section \<open>The offset of the request for updates\<close>

lemma sint_succ:
  fixes c :: int64
  assumes "sint c < 2 ^ 63 - 1"
  shows "sint (c + 1) = sint c + 1"
proof -
  have "- 9223372036854775808 \<le> sint c" using sint_ge [of c] by simp
  with assms have "signed_take_bit 63 (sint c + 1) = sint c + 1"
    by (intro signed_take_bit_int_eq_self) simp_all
  then show ?thesis by (simp add: sint_word_add)
qed

lemma getUpdates_events:
  "events (snd (getUpdates c w)) = events w @ [HttpGet (getUpdatesURL (telegramBotToken w) c)]"
  by (simp add: getUpdates_def emit_def Let_def split: sum.splits)

text \<open>
  C7. For every checkpoint \<open>c\<close> the one request that \<^verbatim>\<open>getUpdates\<close> sends carries
  \<^verbatim>\<open>offset=\<close> followed by the decimal text of \<open>c + 1\<close>, the \<^verbatim>\<open>int64\<close> sum that Go
  computes, and that text reads back as \<open>c + 1\<close>. Below the largest \<^verbatim>\<open>int64\<close> the sum
  is the integer \<open>c + 1\<close>, and every id up to \<open>c\<close> lies below the offset. With the
  checkpoint 42, as read from a file that holds \<^verbatim>\<open>42\<close>, the request carries
  \<^verbatim>\<open>offset=43\<close>, beyond every id up to 42.
\<close>

theorem getUpdates_offset:
  "events (snd (getUpdates c w)) =
     events w @
     [HttpGet (str ''https://api.telegram.org/bot'' @ telegramBotToken w @
               str ''/getUpdates?offset='' @ fmt_d (c + 1) @ str ''&timeout=30'')] \<and>
   Sscanf_d (fmt_d (c + 1)) = Inr (c + 1) \<and>
   (sint c < 2 ^ 63 - 1 \<longrightarrow>
      sint (c + 1) = sint c + 1 \<and> (\<forall>i :: int64. sint i \<le> sint c \<longrightarrow> sint i < sint (c + 1))) \<and>
   events (snd (getUpdates 42 w)) =
     events w @
     [HttpGet (str ''https://api.telegram.org/bot'' @ telegramBotToken w @
               str ''/getUpdates?offset=43&timeout=30'')] \<and>
   (\<forall>i :: int64. sint i \<le> 42 \<longrightarrow> sint i < sint (42 + 1 :: int64)) \<and>
   (lastUpdateIDFile w = Content (str ''42'') \<longrightarrow> getLastUpdateID w = (42, None))"
proof (intro conjI impI)
  show "events (snd (getUpdates c w)) =
     events w @
     [HttpGet (str ''https://api.telegram.org/bot'' @ telegramBotToken w @
               str ''/getUpdates?offset='' @ fmt_d (c + 1) @ str ''&timeout=30'')]"
    by (simp add: getUpdates_events getUpdatesURL_def)
  show "Sscanf_d (fmt_d (c + 1)) = Inr (c + 1)" by (rule Sscanf_d_fmt_d)
  show "events (snd (getUpdates 42 w)) =
     events w @
     [HttpGet (str ''https://api.telegram.org/bot'' @ telegramBotToken w @
               str ''/getUpdates?offset=43&timeout=30'')]"
    by (simp add: getUpdates_events getUpdatesURL_def fmt_d_def showNat.simps str_def)
  show "\<forall>i :: int64. sint i \<le> 42 \<longrightarrow> sint i < sint (42 + 1 :: int64)" by simp
next
  assume a: "sint c < 2 ^ 63 - 1"
  then show "sint (c + 1) = sint c + 1" by (rule sint_succ)
  then show "\<forall>i :: int64. sint i \<le> sint c \<longrightarrow> sint i < sint (c + 1)" by simp
next
  assume "lastUpdateIDFile w = Content (str ''42'')"
  then show "getLastUpdateID w = (42, None)"
    by (simp add: getLastUpdateID_def Sscanf_d_def scanNumber_def isSpace_def isDigit_def
        ParseInt_def digitsValue_def str_def)
qed

theorem getUpdates_offset_witness:
  "events (snd (getUpdates 42 quiet)) =
     [HttpGet (str ''https://api.telegram.org/bot123:abc/getUpdates?offset=43&timeout=30'')] \<and>
   sint (42 + 1 :: int64) = 43 \<and>
   sint (41 :: int64) < sint (42 + 1 :: int64) \<and>
   getLastUpdateID (quiet\<lparr>lastUpdateIDFile := Content (str ''42'')\<rparr>) = (42, None) \<and>
   main 1 (quiet\<lparr>lastUpdateIDFile := Content (str ''42'')\<rparr>) =
     Inr (42, quiet\<lparr>lastUpdateIDFile := Content (str ''42''), polls := 1, writes := 1,
                    events :=
                      [HttpGet (str ''https://api.telegram.org/bot123:abc/getUpdates?offset=43&timeout=30''),
                       WriteFile (str ''42''), Sleep 2]\<rparr>)"
proof -
  have q: "events quiet = []" "telegramBotToken quiet = str ''123:abc''"
    by (simp_all add: quiet_def)
  from getUpdates_offset [of 42 quiet] q
  have a: "events (snd (getUpdates 42 quiet)) =
     [HttpGet (str ''https://api.telegram.org/bot123:abc/getUpdates?offset=43&timeout=30'')]"
    by (simp add: str_def fmt_d_def showNat.simps)
  from getUpdates_offset [of 42 "quiet\<lparr>lastUpdateIDFile := Content (str ''42'')\<rparr>"]
  have b: "getLastUpdateID (quiet\<lparr>lastUpdateIDFile := Content (str ''42'')\<rparr>) = (42, None)"
    by simp
  have c: "main 1 (quiet\<lparr>lastUpdateIDFile := Content (str ''42'')\<rparr>) =
     Inr (42, quiet\<lparr>lastUpdateIDFile := Content (str ''42''), polls := 1, writes := 1,
                    events :=
                      [HttpGet (str ''https://api.telegram.org/bot123:abc/getUpdates?offset=43&timeout=30''),
                       WriteFile (str ''42''), Sleep 2]\<rparr>)"
    using b
    by (simp add: main_def mainInit_def mainPass_def getUpdates_def getUpdatesURL_def
        saveLastUpdateID_def sleep_def emit_def quiet_def fmt_d_def showNat.simps str_def Let_def)
  from a b c show ?thesis by simp
qed

section \<open>Reading the checkpoint at start\<close>

lemmas scan_eval = Sscanf_d_def scanNumber_def isSpace_def isDigit_def ParseInt_def
  digitsValue_def str_def

text \<open>
  C4, as the specification states it: a checkpoint file that exists but does not parse
  as a decimal integer would be read as 0, as the start of history, and the program would
  enter its loop. With a file that holds \<^verbatim>\<open>abc\<close>, \<^verbatim>\<open>getLastUpdateID\<close> returns 0
  together with an error, and \<^verbatim>\<open>main\<close> ends in \<^verbatim>\<open>log.Fatalf\<close> before the loop.
\<close>

theorem corrupt_checkpoint_counterexample:
  "getLastUpdateID (quiet\<lparr>lastUpdateIDFile := Content (str ''abc'')\<rparr>) =
     (0, Some (ScanError ExpectedInteger)) \<and>
   main_http 1 (quiet\<lparr>lastUpdateIDFile := Content (str ''abc'')\<rparr>) =
     Inl (ReadLastUpdateID (ScanError ExpectedInteger))"
  by (simp add: main_http_def mainInit_http_def getLastUpdateID_def quiet_def scan_eval)

text \<open>
  C4, amended. When the checkpoint file does not exist or cannot be read,
  \<^verbatim>\<open>getLastUpdateID\<close> returns 0 and no error, and \<^verbatim>\<open>main\<close> (its two variables
  set) enters the loop from 0. When the file is read but \<^verbatim>\<open>Sscanf\<close> fails on its text,
  \<^verbatim>\<open>getLastUpdateID\<close> returns 0 with the error and \<^verbatim>\<open>main\<close> ends fatally before
  the loop. When the text scans, the value scanned is returned.
\<close>

theorem missing_or_corrupt_checkpoint:
  "(lastUpdateIDFile w = NotExist \<or> lastUpdateIDFile w = Unreadable \<longrightarrow>
      getLastUpdateID w = (0, None) \<and>
      (telegramBotToken w \<noteq> [] \<and> backendURL w \<noteq> [] \<longrightarrow>
         main_http n w = Inr (mainLoop_http n 0 w))) \<and>
   (\<forall>data e. lastUpdateIDFile w = Content data \<and> Sscanf_d data = Inl e \<longrightarrow>
      getLastUpdateID w = (0, Some (ScanError e)) \<and>
      (telegramBotToken w \<noteq> [] \<and> backendURL w \<noteq> [] \<longrightarrow>
         main_http n w = Inl (ReadLastUpdateID (ScanError e)))) \<and>
   (\<forall>data v. lastUpdateIDFile w = Content data \<and> Sscanf_d data = Inr v \<longrightarrow>
      getLastUpdateID w = (v, None))"
  by (auto simp: main_http_def mainInit_http_def getLastUpdateID_def)

theorem missing_or_corrupt_checkpoint_witness:
  "getLastUpdateID quiet = (0, None) \<and>
   main_http 1 quiet =
     Inr (0, quiet\<lparr>lastUpdateIDFile := Content (str ''0''), polls := 1, writes := 1,
                   events :=
                     [HttpGet (str ''https://api.telegram.org/bot123:abc/getUpdates?offset=1&timeout=30''),
                      WriteFile (str ''0''), Sleep 2]\<rparr>) \<and>
   getLastUpdateID (quiet\<lparr>lastUpdateIDFile := Content (str ''12x'')\<rparr>) = (12, None) \<and>
   getLastUpdateID (quiet\<lparr>lastUpdateIDFile := Content (str ''x12'')\<rparr>) =
     (0, Some (ScanError ExpectedInteger)) \<and>
   main_http 1 (quiet\<lparr>lastUpdateIDFile := Content (str ''x12'')\<rparr>) =
     Inl (ReadLastUpdateID (ScanError ExpectedInteger))"
proof -
  have m: "mainLoop_http 1 0 quiet =
     (0, quiet\<lparr>lastUpdateIDFile := Content (str ''0''), polls := 1, writes := 1,
                   events :=
                     [HttpGet (str ''https://api.telegram.org/bot123:abc/getUpdates?offset=1&timeout=30''),
                      WriteFile (str ''0''), Sleep 2]\<rparr>)"
    by (simp add: mainPass_http_def getUpdates_def getUpdatesURL_def
        saveLastUpdateID_def sleep_def emit_def quiet_def fmt_d_def showNat.simps str_def Let_def)
  have q: "lastUpdateIDFile quiet = NotExist" "telegramBotToken quiet \<noteq> []" "backendURL quiet \<noteq> []"
    by (simp_all add: quiet_def str_def)
  from missing_or_corrupt_checkpoint [of quiet 1] q m
  have a: "getLastUpdateID quiet = (0, None)"
    and b: "main_http 1 quiet =
     Inr (0, quiet\<lparr>lastUpdateIDFile := Content (str ''0''), polls := 1, writes := 1,
                   events :=
                     [HttpGet (str ''https://api.telegram.org/bot123:abc/getUpdates?offset=1&timeout=30''),
                      WriteFile (str ''0''), Sleep 2]\<rparr>)"
    by simp_all
  have s1: "Sscanf_d (str ''12x'') = Inr 12" by (simp add: scan_eval)
  have s2: "Sscanf_d (str ''x12'') = Inl ExpectedInteger" by (simp add: scan_eval)
  from missing_or_corrupt_checkpoint [of "quiet\<lparr>lastUpdateIDFile := Content (str ''12x'')\<rparr>" 1] s1
  have c: "getLastUpdateID (quiet\<lparr>lastUpdateIDFile := Content (str ''12x'')\<rparr>) = (12, None)"
    by simp
  from missing_or_corrupt_checkpoint [of "quiet\<lparr>lastUpdateIDFile := Content (str ''x12'')\<rparr>" 1] s2 q
  have d: "getLastUpdateID (quiet\<lparr>lastUpdateIDFile := Content (str ''x12'')\<rparr>) =
     (0, Some (ScanError ExpectedInteger))"
    and e: "main_http 1 (quiet\<lparr>lastUpdateIDFile := Content (str ''x12'')\<rparr>) =
     Inl (ReadLastUpdateID (ScanError ExpectedInteger))"
    by simp_all
  from a b c d e show ?thesis by simp
qed

section \<open>Configuration\<close>

text \<open>
  C8, as the specification states it: every required value, the proxy of the program
  that runs \<^verbatim>\<open>gallery-dl\<close> among them, would be checked once before the loop, and its
  absence would end the process before any polling. In a world where \<^verbatim>\<open>HTTP_PROXY\<close>
  is empty and a message with a URL arrives, \<^verbatim>\<open>main\<close> enters its loop, polls, and
  meets the missing proxy inside \<^verbatim>\<open>download\<close>, three times, as a failed attempt; the
  pass ends with the checkpoint written.
\<close>

theorem missing_proxy_counterexample:
  "HTTP_PROXY oneMessage = [] \<and>
   main 1 oneMessage =
     Inr (5, oneMessage\<lparr>lastUpdateIDFile := Content (str ''5''), polls := 1, writes := 1,
           events :=
             [HttpGet (str ''https://api.telegram.org/bot123:abc/getUpdates?offset=1&timeout=30''),
              SendMessage 7 (UrlsFound 1),
              Download (str ''https://example.com/a''),
              SendMessage 7 (DownloadRetrying 1 (str ''https://example.com/a'') ProxyNotSet),
              Sleep 5,
              Download (str ''https://example.com/a''),
              SendMessage 7 (DownloadRetrying 2 (str ''https://example.com/a'') ProxyNotSet),
              Sleep 5,
              Download (str ''https://example.com/a''),
              SendMessage 7 (TaskTerminated (str ''https://example.com/a'')
                (FinalFailure 3 (Some ProxyNotSet))),
              WriteFile (str ''5''), Sleep 2]\<rparr>)"
  by (simp add: main_def mainInit_def getLastUpdateID_def mainPass_def getUpdates_def
      getUpdatesURL_def handleMessage_def advance_def regex_eval
      runDownloadWithRetry_def retryFrom.simps download_def maxRetries_def delay_def
      saveLastUpdateID_def sendMessage_def sleep_def emit_def oneMessage_def quiet_def fmt_d_def
      showNat.simps Let_def)

text \<open>
  C8, amended. In the two later programs \<^verbatim>\<open>main\<close> checks the bot token and the
  backend URL once, before the loop, and an empty one ends the process there, before any
  request for updates. The proxy is no part of that check: \<^verbatim>\<open>main\<close> up to its loop
  does not depend on \<^verbatim>\<open>HTTP_PROXY\<close>, and with the other two set and a checkpoint
  that reads, the loop is entered. \<^verbatim>\<open>download\<close> reads \<^verbatim>\<open>HTTP_PROXY\<close> at every
  call; when it is empty the call fails with an error, an attempt that failed like any
  other, and the process goes on.
\<close>

theorem startup_configuration:
  "(telegramBotToken w = [] \<or> backendURL w = [] \<longrightarrow>
      main n w = Inl ConfigNotSet \<and> main_http n w = Inl ConfigNotSet) \<and>
   mainInit (w\<lparr>HTTP_PROXY := proxy\<rparr>) = mainInit w \<and>
   (telegramBotToken w \<noteq> [] \<and> backendURL w \<noteq> [] \<and> snd (getLastUpdateID w) = None \<longrightarrow>
      main n w = Inr (mainLoop n (fst (getLastUpdateID w)) w)) \<and>
   (HTTP_PROXY w = [] \<longrightarrow> download url w = (Some ProxyNotSet, emit (Download url) w))"
  by (auto simp: main_def main_http_def mainInit_def mainInit_http_def getLastUpdateID_def
      download_no_proxy split: file_state.splits sum.splits)

theorem startup_configuration_witness:
  "main 1 (quiet\<lparr>telegramBotToken := []\<rparr>) = Inl ConfigNotSet \<and>
   main_http 1 (quiet\<lparr>backendURL := []\<rparr>) = Inl ConfigNotSet \<and>
   main 0 quiet = Inr (0, quiet) \<and>
   download (str ''https://example.com/a'') quiet =
     (Some ProxyNotSet, quiet\<lparr>events := [Download (str ''https://example.com/a'')]\<rparr>)"
proof -
  have q: "telegramBotToken quiet \<noteq> []" "backendURL quiet \<noteq> []" "HTTP_PROXY quiet = []"
    "getLastUpdateID quiet = (0, None)" "events quiet = []"
    by (simp_all add: quiet_def str_def getLastUpdateID_def)
  from startup_configuration [of "quiet\<lparr>telegramBotToken := []\<rparr>" 1]
  have a: "main 1 (quiet\<lparr>telegramBotToken := []\<rparr>) = Inl ConfigNotSet" by simp
  from startup_configuration [of "quiet\<lparr>backendURL := []\<rparr>" 1]
  have b: "main_http 1 (quiet\<lparr>backendURL := []\<rparr>) = Inl ConfigNotSet" by simp
  from startup_configuration [of quiet 0 _ "str ''https://example.com/a''"] q
  have c: "main 0 quiet = Inr (0, quiet)"
    and d: "download (str ''https://example.com/a'') quiet =
     (Some ProxyNotSet, quiet\<lparr>events := [Download (str ''https://example.com/a'')]\<rparr>)"
    by (simp_all add: emit_def)
  from a b c d show ?thesis by simp
qed

section \<open>The checkpoint after a batch\<close>

lemma sint_advance: "sint (advance u c) = max (sint c) (sint (UpdateID u))"
  by (simp add: advance_def max_def)

lemma handleUpdates_fst:
  "fst (handleUpdates us c w) = foldl (\<lambda>c u. advance u c) c us"
  by (induction us arbitrary: c w) simp_all

lemma handleUpdates_http_fst:
  "fst (handleUpdates_http us c w) = foldl (\<lambda>c u. advance u c) c us"
  by (induction us arbitrary: c w) simp_all

lemma sint_foldl_advance:
  "sint (foldl (\<lambda>c u. advance u c) c us) = Max (insert (sint c) ((\<lambda>u. sint (UpdateID u)) ` set us))"
proof (induction us arbitrary: c)
  case Nil
  then show ?case by simp
next
  case (Cons u us)
  have "Max (insert (max (sint c) (sint (UpdateID u))) ((\<lambda>u. sint (UpdateID u)) ` set us)) =
        Max (insert (sint c) (insert (sint (UpdateID u)) ((\<lambda>u. sint (UpdateID u)) ` set us)))"
    by (cases "set us = {}") (simp_all add: max.assoc)
  with Cons [of "advance u c"] show ?case by (simp add: sint_advance)
qed

text \<open>What the handling of updates leaves alone: the checkpoint file and the disk.\<close>

lemma download_files:
  "disk (snd (download url w)) = disk w \<and> writes (snd (download url w)) = writes w \<and>
   lastUpdateIDFile (snd (download url w)) = lastUpdateIDFile w"
  by (simp add: download_def emit_def Let_def split: option.splits)

lemma retryFrom_files:
  "disk (snd (retryFrom i l url c w)) = disk w \<and>
   writes (snd (retryFrom i l url c w)) = writes w \<and>
   lastUpdateIDFile (snd (retryFrom i l url c w)) = lastUpdateIDFile w"
proof (induction i l url c w rule: retryFrom.induct)
  case (1 i lastErr url chatID w)
  show ?case
  proof (cases "i < maxRetries")
    case False
    then show ?thesis unfolding retryFrom.simps [of i lastErr url chatID w] by simp
  next
    case True
    obtain r w1 where d: "download url w = (r, w1)" by (cases "download url w")
    from download_files [of url w] d
    have f: "disk w1 = disk w" "writes w1 = writes w" "lastUpdateIDFile w1 = lastUpdateIDFile w"
      by simp_all
    show ?thesis
    proof (cases r)
      case None
      with True d f show ?thesis
        unfolding retryFrom.simps [of i lastErr url chatID w]
        by (simp add: sendMessage_def emit_def)
    next
      case (Some e)
      from "1.IH" [OF True d [symmetric] Some] True d Some f show ?thesis
        unfolding retryFrom.simps [of i lastErr url chatID w]
        by (simp add: sendMessage_def sleep_def emit_def)
    qed
  qed
qed

lemma downloadUrls_files:
  "disk (downloadUrls urls c w) = disk w \<and> writes (downloadUrls urls c w) = writes w \<and>
   lastUpdateIDFile (downloadUrls urls c w) = lastUpdateIDFile w"
proof (induction urls arbitrary: w)
  case Nil
  then show ?case by simp
next
  case (Cons url urls)
  obtain r w1 where d: "runDownloadWithRetry url c w = (r, w1)"
    by (cases "runDownloadWithRetry url c w")
  from retryFrom_files [of 0 None url c w] d
  have f: "disk w1 = disk w" "writes w1 = writes w" "lastUpdateIDFile w1 = lastUpdateIDFile w"
    by (simp_all add: runDownloadWithRetry_def)
  show ?case
  proof (cases r)
    case None
    with d f Cons [of w1] show ?thesis by simp
  next
    case (Some e)
    with d f Cons [of "sendMessage c (TaskTerminated url e) w1"] show ?thesis
      by (simp add: sendMessage_def emit_def)
  qed
qed

lemma handleMessage_files:
  "disk (handleMessage m w) = disk w \<and> writes (handleMessage m w) = writes w \<and>
   lastUpdateIDFile (handleMessage m w) = lastUpdateIDFile w"
  by (simp add: handleMessage_def Let_def downloadUrls_files sendMessage_def emit_def)

lemma handleUpdates_files:
  "disk (snd (handleUpdates us c w)) = disk w \<and> writes (snd (handleUpdates us c w)) = writes w \<and>
   lastUpdateIDFile (snd (handleUpdates us c w)) = lastUpdateIDFile w"
proof (induction us arbitrary: c w)
  case Nil
  then show ?case by simp
next
  case (Cons u us)
  then show ?case by (cases "Message u") (simp_all add: handleMessage_files)
qed

lemma download_http_files:
  "disk (snd (download_http url w)) = disk w \<and> writes (snd (download_http url w)) = writes w \<and>
   lastUpdateIDFile (snd (download_http url w)) = lastUpdateIDFile w"
  by (simp add: download_http_def emit_def Let_def split: post_result.splits)

lemma downloadUrls_http_files:
  "disk (downloadUrls_http urls c w) = disk w \<and> writes (downloadUrls_http urls c w) = writes w \<and>
   lastUpdateIDFile (downloadUrls_http urls c w) = lastUpdateIDFile w"
proof (induction urls arbitrary: w)
  case Nil
  then show ?case by simp
next
  case (Cons url urls)
  obtain r w1 where d: "download_http url w = (r, w1)" by (cases "download_http url w")
  from download_http_files [of url w] d
  have f: "disk w1 = disk w" "writes w1 = writes w" "lastUpdateIDFile w1 = lastUpdateIDFile w"
    by simp_all
  show ?case
  proof (cases r)
    case None
    with d f Cons [of "sendMessage c (DownloadOk url) w1"] show ?thesis
      by (simp add: sendMessage_def emit_def)
  next
    case (Some e)
    with d f Cons [of "sendMessage c (DownloadFailed url e) w1"] show ?thesis
      by (simp add: sendMessage_def emit_def)
  qed
qed

lemma handleMessage_http_files:
  "disk (handleMessage_http m w) = disk w \<and> writes (handleMessage_http m w) = writes w \<and>
   lastUpdateIDFile (handleMessage_http m w) = lastUpdateIDFile w"
  by (simp add: handleMessage_http_def Let_def downloadUrls_http_files sendMessage_def emit_def)

lemma handleUpdates_http_files:
  "disk (snd (handleUpdates_http us c w)) = disk w \<and>
   writes (snd (handleUpdates_http us c w)) = writes w \<and>
   lastUpdateIDFile (snd (handleUpdates_http us c w)) = lastUpdateIDFile w"
proof (induction us arbitrary: c w)
  case Nil
  then show ?case by simp
next
  case (Cons u us)
  then show ?case by (cases "Message u") (simp_all add: handleMessage_http_files)
qed

lemma getUpdates_ok:
  assumes "telegram w (polls w) (getUpdatesURL (telegramBotToken w) c) = Inr result"
    and "Ok result"
  shows "getUpdates c w =
           (Inr (Updates result),
            emit (HttpGet (getUpdatesURL (telegramBotToken w) c)) (w\<lparr>polls := polls w + 1\<rparr>))"
  using assms by (simp add: getUpdates_def Let_def)

lemma save_effects:
  "events (snd (saveLastUpdateID v w)) = events w @ [WriteFile (fmt_d v)] \<and>
   (disk w (writes w) = None \<longrightarrow> lastUpdateIDFile (snd (saveLastUpdateID v w)) = Content (fmt_d v))"
  by (simp add: saveLastUpdateID_def emit_def Let_def split: option.splits)

text \<open>
  C2, as the specification states it: after a batch the checkpoint would be the largest
  update id seen in the batch. With the checkpoint at 10 and a batch that holds the one
  update 5, both later programs leave the checkpoint at 10: the step
  \<^verbatim>\<open>if update.UpdateID > lastUpdateID\<close> never moves it back.
\<close>

theorem checkpoint_after_batch_counterexample:
  "fst (getUpdates 10 lowId) = Inr [\<lparr>UpdateID = 5, Message = None\<rparr>] \<and>
   fst (mainPass 10 lowId) = 10 \<and> fst (mainPass 10 lowId) \<noteq> 5 \<and>
   fst (mainPass_http 10 lowId) = 10 \<and> fst (mainPass_http 10 lowId) \<noteq> 5"
  by (simp add: mainPass_def mainPass_http_def getUpdates_def advance_def lowId_def quiet_def
      Let_def)

text \<open>
  C2, amended. When the request for updates succeeds, the checkpoint after the pass is
  the largest of the old checkpoint and the update ids of the batch, in both later
  programs alike and whatever the downloads did: the value depends on the old checkpoint
  and on the ids only. So every update of the batch, also one whose downloads failed, has
  an id no larger than the new checkpoint. The pass then hands the new checkpoint to
  \<^verbatim>\<open>saveLastUpdateID\<close>: the write of its decimal text and the sleep of two seconds
  are the last two effects of the pass, and when the write succeeds the file holds that
  text.
\<close>

theorem checkpoint_after_batch:
  assumes "telegram w (polls w) (getUpdatesURL (telegramBotToken w) c) = Inr result"
    and "Ok result"
  shows "sint (fst (mainPass c w)) =
           Max (insert (sint c) ((\<lambda>u. sint (UpdateID u)) ` set (Updates result))) \<and>
         fst (mainPass_http c w) = fst (mainPass c w) \<and>
         (\<forall>u\<in>set (Updates result). sint (UpdateID u) \<le> sint (fst (mainPass c w))) \<and>
         (\<exists>evs. events (snd (mainPass c w)) =
                  evs @ [WriteFile (fmt_d (fst (mainPass c w))), Sleep 2]) \<and>
         (\<exists>evs. events (snd (mainPass_http c w)) =
                  evs @ [WriteFile (fmt_d (fst (mainPass c w))), Sleep 2]) \<and>
         (disk w (writes w) = None \<longrightarrow>
            lastUpdateIDFile (snd (mainPass c w)) = Content (fmt_d (fst (mainPass c w))) \<and>
            lastUpdateIDFile (snd (mainPass_http c w)) = Content (fmt_d (fst (mainPass c w))))"
proof -
  let ?w1 = "emit (HttpGet (getUpdatesURL (telegramBotToken w) c)) (w\<lparr>polls := polls w + 1\<rparr>)"
  let ?us = "Updates result"
  let ?n = "foldl (\<lambda>c u. advance u c) c ?us"
  let ?w2 = "snd (handleUpdates ?us c ?w1)"
  let ?h2 = "snd (handleUpdates_http ?us c ?w1)"
  have g: "getUpdates c w = (Inr ?us, ?w1)" using assms by (rule getUpdates_ok)
  have p: "mainPass c w = (?n, sleep 2 (snd (saveLastUpdateID ?n ?w2)))"
    using handleUpdates_fst [of ?us c ?w1]
    by (auto simp: mainPass_def g split: prod.splits)
  have h: "mainPass_http c w = (?n, sleep 2 (snd (saveLastUpdateID ?n ?h2)))"
    using handleUpdates_http_fst [of ?us c ?w1]
    by (auto simp: mainPass_http_def g split: prod.splits)
  have m: "sint ?n = Max (insert (sint c) ((\<lambda>u. sint (UpdateID u)) ` set ?us))"
    by (rule sint_foldl_advance)
  have le: "\<forall>u\<in>set ?us. sint (UpdateID u) \<le> sint ?n"
    unfolding m by (auto intro: Max_ge)
  have f1: "disk ?w1 = disk w" "writes ?w1 = writes w" by (simp_all add: emit_def)
  have d2: "disk ?w2 (writes ?w2) = disk w (writes w)"
    using handleUpdates_files [of ?us c ?w1] f1 by simp
  have d3: "disk ?h2 (writes ?h2) = disk w (writes w)"
    using handleUpdates_http_files [of ?us c ?w1] f1 by simp
  have e2: "events (snd (mainPass c w)) = events ?w2 @ [WriteFile (fmt_d ?n), Sleep 2]"
    using save_effects [of ?n ?w2] by (simp add: p sleep_def emit_def)
  have e3: "events (snd (mainPass_http c w)) = events ?h2 @ [WriteFile (fmt_d ?n), Sleep 2]"
    using save_effects [of ?n ?h2] by (simp add: h sleep_def emit_def)
  have s2: "disk w (writes w) = None \<longrightarrow>
      lastUpdateIDFile (snd (mainPass c w)) = Content (fmt_d ?n)"
    using save_effects [of ?n ?w2] d2 by (simp add: p sleep_def emit_def)
  have s3: "disk w (writes w) = None \<longrightarrow>
      lastUpdateIDFile (snd (mainPass_http c w)) = Content (fmt_d ?n)"
    using save_effects [of ?n ?h2] d3 by (simp add: h sleep_def emit_def)
  from p h m le e2 e3 s2 s3 show ?thesis by simp
qed

theorem checkpoint_after_batch_witness:
  "fst (mainPass 0 oneMessage) = 5 \<and>
   fst (mainPass_http 0 oneMessage) = 5 \<and>
   sint (5 :: int64) = Max {0, 5} \<and>
   lastUpdateIDFile (snd (mainPass 0 oneMessage)) = Content (str ''5'') \<and>
   events (snd (mainPass 0 oneMessage)) =
     [HttpGet (str ''https://api.telegram.org/bot123:abc/getUpdates?offset=1&timeout=30''),
      SendMessage 7 (UrlsFound 1),
      Download (str ''https://example.com/a''),
      SendMessage 7 (DownloadRetrying 1 (str ''https://example.com/a'') ProxyNotSet),
      Sleep 5,
      Download (str ''https://example.com/a''),
      SendMessage 7 (DownloadRetrying 2 (str ''https://example.com/a'') ProxyNotSet),
      Sleep 5,
      Download (str ''https://example.com/a''),
      SendMessage 7 (TaskTerminated (str ''https://example.com/a'')
        (FinalFailure 3 (Some ProxyNotSet))),
      WriteFile (str ''5''), Sleep 2]"
proof -
  let ?result = "\<lparr>Ok = True, ErrorCode = 0, Description = [],
                  Updates = [\<lparr>UpdateID = 5,
                              Message = Some \<lparr>ChatID = 7,
                                              Text = str ''get https://example.com/a''\<rparr>\<rparr>]\<rparr>"
  have t: "telegram oneMessage (polls oneMessage)
             (getUpdatesURL (telegramBotToken oneMessage) 0) = Inr ?result"
    and o: "Ok ?result" and d: "disk oneMessage (writes oneMessage) = None"
    by (simp_all add: oneMessage_def quiet_def)
  have ev: "events (snd (mainPass 0 oneMessage)) =
     [HttpGet (str ''https://api.telegram.org/bot123:abc/getUpdates?offset=1&timeout=30''),
      SendMessage 7 (UrlsFound 1),
      Download (str ''https://example.com/a''),
      SendMessage 7 (DownloadRetrying 1 (str ''https://example.com/a'') ProxyNotSet),
      Sleep 5,
      Download (str ''https://example.com/a''),
      SendMessage 7 (DownloadRetrying 2 (str ''https://example.com/a'') ProxyNotSet),
      Sleep 5,
      Download (str ''https://example.com/a''),
      SendMessage 7 (TaskTerminated (str ''https://example.com/a'')
        (FinalFailure 3 (Some ProxyNotSet))),
      WriteFile (str ''5''), Sleep 2]"
    by (simp add: mainPass_def getUpdates_def
        getUpdatesURL_def handleMessage_def advance_def regex_eval
        runDownloadWithRetry_def retryFrom.simps download_def maxRetries_def delay_def
        saveLastUpdateID_def sendMessage_def sleep_def emit_def oneMessage_def quiet_def fmt_d_def
        showNat.simps Let_def)
  from checkpoint_after_batch [OF t o]
  have a: "sint (fst (mainPass 0 oneMessage)) = Max {0, 5}"
    and b: "fst (mainPass_http 0 oneMessage) = fst (mainPass 0 oneMessage)"
    and c: "lastUpdateIDFile (snd (mainPass 0 oneMessage)) =
              Content (fmt_d (fst (mainPass 0 oneMessage)))"
    using d by simp_all
  from a have "sint (fst (mainPass 0 oneMessage)) = sint (5 :: int64)" by simp
  then have f: "fst (mainPass 0 oneMessage) = 5" by (simp only: signed_word_eqI)
  have "fmt_d (5 :: int64) = str ''5''" by (simp add: fmt_d_def showNat.simps str_def)
  with a b c f ev show ?thesis by simp
qed

end
